theory Spec2Isabelle
  imports Main "HOL-Library.Word" "HOL-Library.Sublist"
begin

section \<open>Values handed to the type inferrer\<close>

text \<open>
  \<^verbatim>\<open>infer_python_type\<close> in \<^verbatim>\<open>aste/utils/json_schema.py\<close> takes a value annotated
  \<^verbatim>\<open>Any\<close>. The kinds it tells apart are the ones \<^verbatim>\<open>json.load\<close> produces (None, bool,
  int, float, str, list, dict); every other object is \<open>PObject\<close>. A float carries the
  bit pattern of its IEEE double, a list its elements in order, a dict its items in
  insertion order (keys are values themselves, as \<^verbatim>\<open>items[0]\<close> hands the first key
  back to the inferrer).
\<close>

datatype pyval =
    PNone
  | PBool bool
  | PInt int
  | PFloat "64 word"
  | PStr string
  | PList (list_items: "pyval list")
  | PDict (dict_items: "(pyval \<times> pyval) list")
  | PObject

text \<open>
  \<^verbatim>\<open>isinstance(value, T)\<close> for the classes the chain tests. In Python \<^verbatim>\<open>bool\<close> is a
  subclass of \<^verbatim>\<open>int\<close>, so \<^verbatim>\<open>isinstance(True, int)\<close> holds.
\<close>

fun isinstance_bool :: "pyval \<Rightarrow> bool" where
  "isinstance_bool (PBool b) = True"
| "isinstance_bool _ = False"

fun isinstance_int :: "pyval \<Rightarrow> bool" where
  "isinstance_int (PInt i) = True"
| "isinstance_int (PBool b) = True"
| "isinstance_int _ = False"

fun isinstance_float :: "pyval \<Rightarrow> bool" where
  "isinstance_float (PFloat x) = True"
| "isinstance_float _ = False"

fun isinstance_str :: "pyval \<Rightarrow> bool" where
  "isinstance_str (PStr s) = True"
| "isinstance_str _ = False"

fun isinstance_list :: "pyval \<Rightarrow> bool" where
  "isinstance_list (PList xs) = True"
| "isinstance_list _ = False"

fun isinstance_dict :: "pyval \<Rightarrow> bool" where
  "isinstance_dict (PDict kvs) = True"
| "isinstance_dict _ = False"

text \<open>
  The first element of a non-empty list, and the first key and the first value of a
  non-empty dict, are smaller than the list or dict: the measure under which the
  recursion of the inferrer terminates.
\<close>

lemma size_first_list_item:
  "isinstance_list v \<Longrightarrow> list_items v \<noteq> [] \<Longrightarrow> size (list_items v ! 0) < size v"
  by (cases v) (auto simp: neq_Nil_conv)

lemma size_first_dict_key:
  "isinstance_dict v \<Longrightarrow> dict_items v \<noteq> [] \<Longrightarrow> size (fst (dict_items v ! 0)) < size v"
  by (cases v) (auto simp: neq_Nil_conv)

lemma size_first_dict_value:
  "isinstance_dict v \<Longrightarrow> dict_items v \<noteq> [] \<Longrightarrow> size (snd (dict_items v ! 0)) < size v"
  by (cases v) (auto simp: neq_Nil_conv)

section \<open>The type inferrer\<close>

text \<open>
  The \<^verbatim>\<open>if\<close>/\<^verbatim>\<open>elif\<close> chain of \<^verbatim>\<open>infer_python_type\<close>, test by test and in the
  source's order. \<^verbatim>\<open>not value\<close> on a list or dict is emptiness; \<^verbatim>\<open>value[0]\<close> and
  \<^verbatim>\<open>items[0]\<close> are only reached on a non-empty sequence. The inner \<^verbatim>\<open>if items:\<close> of
  the dict branch and its fall-through \<^verbatim>\<open>return "dict[str, Any]"\<close> are kept.
\<close>

function infer_python_type :: "pyval \<Rightarrow> string" where
  "infer_python_type value =
     (if value = PNone then ''None''
      else if isinstance_bool value then ''bool''
      else if isinstance_int value then ''int''
      else if isinstance_float value then ''float''
      else if isinstance_str value then ''str''
      else if isinstance_list value then
        (if list_items value = [] then ''list[Any]''
         else (let first_type = infer_python_type (list_items value ! 0)
               in ''list['' @ first_type @ '']''))
      else if isinstance_dict value then
        (if dict_items value = [] then ''dict[str, Any]''
         else (let items = dict_items value in
               if items \<noteq> [] then
                 (let first_key = fst (items ! 0);
                      first_value = snd (items ! 0);
                      key_type = infer_python_type first_key;
                      value_type = infer_python_type first_value
                  in ''dict['' @ key_type @ '', '' @ value_type @ '']'')
               else ''dict[str, Any]''))
      else ''Any'')"
  by pat_completeness auto

termination
  by (relation "measure size")
     (simp_all add: size_first_list_item size_first_dict_key size_first_dict_value)

declare infer_python_type.simps [simp del]

text \<open>
  The type names the inferrer can produce: the six atoms, and the two container forms
  around type names.
\<close>

inductive type_name :: "string \<Rightarrow> bool" where
  tn_None: "type_name ''None''"
| tn_bool: "type_name ''bool''"
| tn_int: "type_name ''int''"
| tn_float: "type_name ''float''"
| tn_str: "type_name ''str''"
| tn_Any: "type_name ''Any''"
| tn_list: "type_name t \<Longrightarrow> type_name (''list['' @ t @ '']'')"
| tn_dict: "type_name k \<Longrightarrow> type_name t \<Longrightarrow> type_name (''dict['' @ k @ '', '' @ t @ '']'')"

text \<open>
  The function above has the whole recursion at its disposal. On the interpreter every
  call of \<^verbatim>\<open>infer_python_type\<close> takes one frame of the call stack, and a call with no
  frame left raises \<^verbatim>\<open>RecursionError\<close>; the source has no guard of its own against
  deep nesting. \<open>infer_python_type_frames n\<close> is the same chain of tests run with \<open>n\<close>
  frames left (at most the interpreter's recursion limit, 1000 unless it is changed,
  less the frames of the callers). The isinstance tests, \<^verbatim>\<open>value.items()\<close> and the
  string formatting are built-in and take no frame.
\<close>

datatype interpreter_error = RecursionError

fun infer_python_type_frames :: "nat \<Rightarrow> pyval \<Rightarrow> interpreter_error + string" where
  "infer_python_type_frames 0 value = Inl RecursionError"
| "infer_python_type_frames (Suc frames) value =
     (if value = PNone then Inr ''None''
      else if isinstance_bool value then Inr ''bool''
      else if isinstance_int value then Inr ''int''
      else if isinstance_float value then Inr ''float''
      else if isinstance_str value then Inr ''str''
      else if isinstance_list value then
        (if list_items value = [] then Inr ''list[Any]''
         else (case infer_python_type_frames frames (list_items value ! 0) of
                 Inl e \<Rightarrow> Inl e
               | Inr first_type \<Rightarrow> Inr (''list['' @ first_type @ '']'')))
      else if isinstance_dict value then
        (if dict_items value = [] then Inr ''dict[str, Any]''
         else (let items = dict_items value in
               if items \<noteq> [] then
                 (let first_key = fst (items ! 0);
                      first_value = snd (items ! 0)
                  in case infer_python_type_frames frames first_key of
                       Inl e \<Rightarrow> Inl e
                     | Inr key_type \<Rightarrow>
                         (case infer_python_type_frames frames first_value of
                            Inl e \<Rightarrow> Inl e
                          | Inr value_type \<Rightarrow>
                              Inr (''dict['' @ key_type @ '', '' @ value_type @ '']'')))
               else Inr ''dict[str, Any]''))
      else Inr ''Any'')"

text \<open>
  The frames a call on a value takes at its deepest: one for the call itself, and those
  of the call on the first element, or of the deeper of the calls on the first key and
  the first value.
\<close>

fun frames_needed :: "pyval \<Rightarrow> nat" where
  "frames_needed (PList (x # xs)) = Suc (frames_needed x)"
| "frames_needed (PDict ((k, v) # kvs)) = Suc (max (frames_needed k) (frames_needed v))"
| "frames_needed _ = Suc 0"

text \<open>\<open>nested_list n v\<close> is \<open>v\<close> inside \<open>n\<close> one-element lists: \<^verbatim>\<open>[[...[v]...]]\<close>.\<close>

primrec nested_list :: "nat \<Rightarrow> pyval \<Rightarrow> pyval" where
  "nested_list 0 v = v"
| "nested_list (Suc n) v = PList [nested_list n v]"

section \<open>The field schema builder\<close>

text \<open>
  A Python dict is its list of items in insertion order, with distinct keys.
  \<^verbatim>\<open>d[key] = v\<close> replaces the value of a key that is present, in place, and appends
  the item otherwise.
\<close>

type_synonym 'v pydict = "(string \<times> 'v) list"

definition dict_setitem :: "'v pydict \<Rightarrow> string \<Rightarrow> 'v \<Rightarrow> 'v pydict" where
  "dict_setitem d key v =
     (if key \<in> set (map fst d)
      then map (\<lambda>(k, old). if k = key then (k, v) else (k, old)) d
      else d @ [(key, v)])"

text \<open>
  \<^verbatim>\<open>infer_fields_from_json\<close>: \<^verbatim>\<open>fields\<close> starts as the empty dict and the loop over
  \<^verbatim>\<open>data.items()\<close> stores one inferred type per key.
\<close>

definition infer_fields_from_json :: "pyval pydict \<Rightarrow> string pydict" where
  "infer_fields_from_json data =
     fold (\<lambda>(key, value) fields. dict_setitem fields key (infer_python_type value)) data []"

section \<open>Syntax trees and their unparser\<close>

text \<open>
  The builders construct nodes of Python's \<^verbatim>\<open>ast\<close> module and \<^verbatim>\<open>build\<close> hands the
  module to \<^verbatim>\<open>ast.unparse\<close>. Both belong to Python's standard library; they are
  modelled here from the library's source, for the node classes that the builders
  construct and with the fields they pass. \<^verbatim>\<open>ClassDef\<close> has \<^verbatim>\<open>name\<close>, \<^verbatim>\<open>bases\<close>,
  \<^verbatim>\<open>keywords\<close>, \<^verbatim>\<open>body\<close> and \<^verbatim>\<open>decorator_list\<close>; its \<^verbatim>\<open>type_params\<close> is always the
  empty list, for which the unparser writes nothing. An optional field that a
  constructor call leaves out is \<open>None\<close>. The only expressions built are names.
\<close>

datatype expr_context = Load | Store

datatype expr = Name string expr_context

datatype alias_node = Alias string "string option"

datatype keyword = Keyword "string option" expr

datatype stmt =
    ImportFrom string "alias_node list" nat
  | ClassDef string "expr list" "keyword list" "stmt list" "expr list"
  | AnnAssign expr expr "expr option" int
  | Pass

datatype module = Module "stmt list"

text \<open>
  The state of \<^verbatim>\<open>ast._Unparser\<close>: \<^verbatim>\<open>_source\<close>, the list of text parts written so far,
  and \<^verbatim>\<open>_indent\<close>, the current block depth. \<^verbatim>\<open>write\<close> (here \<open>write_src\<close>) appends one part;
  \<^verbatim>\<open>maybe_newline\<close> writes a line break unless the list of parts is still empty;
  \<^verbatim>\<open>fill\<close> starts a new line at the current indentation.
\<close>

datatype unparser = Unparser (source: "string list") (indent: nat)

definition write_src :: "string \<Rightarrow> unparser \<Rightarrow> unparser" where
  "write_src text u = Unparser (source u @ [text]) (indent u)"

definition maybe_newline :: "unparser \<Rightarrow> unparser" where
  "maybe_newline u = (if source u \<noteq> [] then write_src ''\<newline>'' u else u)"

definition fill :: "string \<Rightarrow> unparser \<Rightarrow> unparser" where
  "fill text u =
     (let u = maybe_newline u
      in write_src (concat (replicate (indent u) ''    '') @ text) u)"

text \<open>\<^verbatim>\<open>interleave(inter, f, seq)\<close>: \<^verbatim>\<open>f\<close> on each item, \<^verbatim>\<open>inter\<close> between two items.\<close>

fun interleave ::
  "(unparser \<Rightarrow> unparser) \<Rightarrow> ('a \<Rightarrow> unparser \<Rightarrow> unparser) \<Rightarrow> 'a list \<Rightarrow> unparser \<Rightarrow> unparser" where
  "interleave sep f [] u = u"
| "interleave sep f (x # seq) u = fold (\<lambda>x u. f x (sep u)) seq (f x u)"

fun visit_expr :: "expr \<Rightarrow> unparser \<Rightarrow> unparser" where
  "visit_expr (Name ident ctx) u = write_src ident u"

fun visit_alias :: "alias_node \<Rightarrow> unparser \<Rightarrow> unparser" where
  "visit_alias (Alias name asname) u =
     (let u = write_src name u
      in case asname of
           None \<Rightarrow> u
         | Some a \<Rightarrow> if a \<noteq> [] then write_src ('' as '' @ a) u else u)"

fun visit_keyword :: "keyword \<Rightarrow> unparser \<Rightarrow> unparser" where
  "visit_keyword (Keyword arg v) u =
     (let u = (case arg of
                 None \<Rightarrow> write_src ''**'' u
               | Some a \<Rightarrow> write_src ''='' (write_src a u))
      in visit_expr v u)"

text \<open>
  One round of the two loops of \<^verbatim>\<open>visit_ClassDef\<close> over bases and keywords: the flag
  \<^verbatim>\<open>comma\<close> is false before the first item only.
\<close>

definition comma_then ::
  "('a \<Rightarrow> unparser \<Rightarrow> unparser) \<Rightarrow> 'a \<Rightarrow> bool \<times> unparser \<Rightarrow> bool \<times> unparser" where
  "comma_then f e = (\<lambda>(comma, u). (True, f e (if comma then write_src '', '' u else u)))"

text \<open>
  \<^verbatim>\<open>visit_ImportFrom\<close>, \<^verbatim>\<open>visit_ClassDef\<close>, \<^verbatim>\<open>visit_AnnAssign\<close> and \<^verbatim>\<open>visit_Pass\<close>.
  \<^verbatim>\<open>delimit_if\<close> writes its brackets when its condition holds; \<^verbatim>\<open>block\<close> writes the
  colon and indents the body by one level. No statement of this model is a docstring,
  so a body is traversed as it is.
\<close>

fun visit_stmt :: "stmt \<Rightarrow> unparser \<Rightarrow> unparser" where
  "visit_stmt (ImportFrom module names level) u =
     (let u = fill ''from '' u;
          u = write_src (concat (replicate level ''.'')) u;
          u = (if module \<noteq> [] then write_src module u else u);
          u = write_src '' import '' u
      in interleave (write_src '', '') visit_alias names u)"
| "visit_stmt (ClassDef name bases keywords body decorator_list) u =
     (let u = maybe_newline u;
          u = fold (\<lambda>deco u. visit_expr deco (fill ''@'' u)) decorator_list u;
          u = fill (''class '' @ name) u;
          condition = (bases \<noteq> [] \<or> keywords \<noteq> []);
          u = (if condition then write_src ''('' u else u);
          cu = fold (comma_then visit_expr) bases (False, u);
          cu = fold (comma_then visit_keyword) keywords cu;
          u = snd cu;
          u = (if condition then write_src '')'' u else u);
          u = write_src '':'' u;
          u = Unparser (source u) (indent u + 1);
          u = fold visit_stmt body u
      in Unparser (source u) (indent u - 1))"
| "visit_stmt (AnnAssign target annotation v simple) u =
     (let u = fill [] u;
          condition = (simple = 0);
          u = (if condition then write_src ''('' u else u);
          u = visit_expr target u;
          u = (if condition then write_src '')'' u else u);
          u = write_src '': '' u;
          u = visit_expr annotation u
      in case v of None \<Rightarrow> u | Some e \<Rightarrow> visit_expr e (write_src '' = '' u))"
| "visit_stmt Pass u = fill ''pass'' u"

text \<open>\<^verbatim>\<open>ast.unparse\<close>: a fresh unparser visits the module and joins the parts.\<close>

fun unparse :: "module \<Rightarrow> string" where
  "unparse (Module body) = concat (source (fold visit_stmt body (Unparser [] 0)))"

section \<open>The structure builders\<close>

text \<open>
  The five subclasses of \<^verbatim>\<open>DataStructureBuilder\<close> in \<^verbatim>\<open>builders.py\<close> and their methods
  \<^verbatim>\<open>_build_imports\<close>, \<^verbatim>\<open>_build_body_nodes\<close>, \<^verbatim>\<open>_build_bases\<close> and
  \<^verbatim>\<open>_build_decorators\<close>. The body method has the same text in all five classes; the
  decorator method is inherited from the base class (the empty list) except in
  \<^verbatim>\<open>DataclassBuilder\<close> and \<^verbatim>\<open>AttrsBuilder\<close>.
\<close>

datatype builder =
  TypedDictBuilder | DataclassBuilder | PydanticBuilder | NamedTupleBuilder | AttrsBuilder

fun build_imports :: "builder \<Rightarrow> string \<Rightarrow> string pydict \<Rightarrow> stmt list" where
  "build_imports TypedDictBuilder class_name fields =
     [ImportFrom ''typing'' [Alias ''TypedDict'' None] 0]"
| "build_imports DataclassBuilder class_name fields =
     [ImportFrom ''dataclasses'' [Alias ''dataclass'' None] 0]"
| "build_imports PydanticBuilder class_name fields =
     [ImportFrom ''pydantic'' [Alias ''BaseModel'' None] 0]"
| "build_imports NamedTupleBuilder class_name fields =
     [ImportFrom ''typing'' [Alias ''NamedTuple'' None] 0]"
| "build_imports AttrsBuilder class_name fields =
     [ImportFrom ''attr'' [Alias ''define'' None] 0]"

definition build_body_nodes :: "builder \<Rightarrow> string \<Rightarrow> string pydict \<Rightarrow> stmt list" where
  "build_body_nodes self class_name fields =
     (let nodes = fold (\<lambda>(name, typ) nodes.
                    nodes @ [AnnAssign (Name name Store) (Name typ Load) None 1]) fields []
      in if nodes = [] then nodes @ [Pass] else nodes)"

fun build_bases :: "builder \<Rightarrow> string \<Rightarrow> string pydict \<Rightarrow> expr list" where
  "build_bases TypedDictBuilder class_name fields = [Name ''TypedDict'' Load]"
| "build_bases DataclassBuilder class_name fields = []"
| "build_bases PydanticBuilder class_name fields = [Name ''BaseModel'' Load]"
| "build_bases NamedTupleBuilder class_name fields = [Name ''NamedTuple'' Load]"
| "build_bases AttrsBuilder class_name fields = []"

fun build_decorators :: "builder \<Rightarrow> string \<Rightarrow> string pydict \<Rightarrow> expr list" where
  "build_decorators DataclassBuilder class_name fields = [Name ''dataclass'' Load]"
| "build_decorators AttrsBuilder class_name fields = [Name ''define'' Load]"
| "build_decorators _ class_name fields = []"

text \<open>
  \<^verbatim>\<open>DataStructureBuilder.build\<close> in \<^verbatim>\<open>base.py\<close>. \<^verbatim>\<open>ast.fix_missing_locations\<close> only
  sets line and column attributes, which the unparser does not read for these nodes.
\<close>

definition build :: "builder \<Rightarrow> string \<Rightarrow> string pydict \<Rightarrow> string" where
  "build self class_name fields =
     (let import_nodes = build_imports self class_name fields;
          body_nodes = build_body_nodes self class_name fields;
          bases = build_bases self class_name fields;
          decorators = build_decorators self class_name fields;
          class_node = ClassDef class_name bases [] body_nodes decorators;
          module_node = Module (import_nodes @ [class_node])
      in unparse module_node)"

section \<open>The builder registry\<close>

text \<open>
  \<^verbatim>\<open>DataStructureFactory.get_builder\<close>: a lookup in the literal dict; the \<^verbatim>\<open>KeyError\<close>
  of a missing key is re-raised as \<^verbatim>\<open>ValueError\<close> with the message built from the
  identifier.
\<close>

datatype error = ValueError string

definition get_builder :: "string \<Rightarrow> error + builder" where
  "get_builder builder_type =
     (let mapping = [(''typed_dict'', TypedDictBuilder),
                     (''dataclass'', DataclassBuilder),
                     (''pydantic'', PydanticBuilder),
                     (''namedtuple'', NamedTupleBuilder),
                     (''attrs'', AttrsBuilder)]
      in case map_of mapping builder_type of
           Some b \<Rightarrow> Inr b
         | None \<Rightarrow> Inl (ValueError (''Unknown builder type: '' @ builder_type)))"

section \<open>The generated text, line by line\<close>

text \<open>
  The text a builder returns is read below as a list of lines joined by line breaks:
  the import, an empty line, the decorator line of the decorator-based kinds, the class
  header, and the body, one line per field or a single \<^verbatim>\<open>pass\<close>.
\<close>

definition join_lines :: "string list \<Rightarrow> string" where
  "join_lines ls =
     (case ls of [] \<Rightarrow> [] | l # ls \<Rightarrow> l @ concat (map (\<lambda>l. CHR 0x0A # l) ls))"

definition field_text :: "string \<times> string \<Rightarrow> string" where
  "field_text = (\<lambda>(name, typ). ''    '' @ name @ '': '' @ typ)"

definition body_lines :: "string pydict \<Rightarrow> string list" where
  "body_lines fields = (if fields = [] then [''    pass''] else map field_text fields)"

definition header_lines :: "builder \<Rightarrow> string \<Rightarrow> string list" where
  "header_lines b class_name =
     (case b of
        TypedDictBuilder \<Rightarrow>
          [''from typing import TypedDict'', [], ''class '' @ class_name @ ''(TypedDict):'']
      | DataclassBuilder \<Rightarrow>
          [''from dataclasses import dataclass'', [], ''@dataclass'',
           ''class '' @ class_name @ '':'']
      | PydanticBuilder \<Rightarrow>
          [''from pydantic import BaseModel'', [], ''class '' @ class_name @ ''(BaseModel):'']
      | NamedTupleBuilder \<Rightarrow>
          [''from typing import NamedTuple'', [], ''class '' @ class_name @ ''(NamedTuple):'']
      | AttrsBuilder \<Rightarrow>
          [''from attr import define'', [], ''@define'', ''class '' @ class_name @ '':''])"

section \<open>Python's parser, on the statements the builders emit\<close>





















section \<open>Dicts as objects\<close>

text \<open>
  A caller hands \<^verbatim>\<open>build\<close> and \<^verbatim>\<open>infer_fields_from_json\<close> a reference to a dict, not a
  copy. To speak about what a call leaves behind, dict objects live in a store: the
  object at reference \<open>r\<close> is \<open>\<sigma> ! r\<close>, a new object gets the next free reference, and
  \<^verbatim>\<open>d[key] = v\<close> rewrites the object at \<open>d\<close>.
\<close>

type_synonym ref = nat

type_synonym 'v store = "'v pydict list"

definition dict_new :: "'v store \<Rightarrow> ref \<times> 'v store" where
  "dict_new \<sigma> = (length \<sigma>, \<sigma> @ [[]])"

definition dict_items_of :: "'v store \<Rightarrow> ref \<Rightarrow> (string \<times> 'v) list" where
  "dict_items_of \<sigma> r = \<sigma> ! r"

definition store_setitem :: "'v store \<Rightarrow> ref \<Rightarrow> string \<Rightarrow> 'v \<Rightarrow> 'v store" where
  "store_setitem \<sigma> r key v = \<sigma>[r := dict_setitem (\<sigma> ! r) key v]"

text \<open>
  \<^verbatim>\<open>infer_fields_from_json\<close> on references: \<^verbatim>\<open>fields = {}\<close> allocates the result, the loop
  reads the items of \<^verbatim>\<open>data\<close> and stores into \<^verbatim>\<open>fields\<close>, and the reference to
  \<^verbatim>\<open>fields\<close> is returned. The stored type names are Python strings.
\<close>

definition infer_fields_from_json_ref :: "pyval store \<Rightarrow> ref \<Rightarrow> ref \<times> pyval store" where
  "infer_fields_from_json_ref \<sigma> data =
     (let (fields, \<sigma>) = dict_new \<sigma>;
          \<sigma> = fold (\<lambda>(key, value) \<sigma>.
                 store_setitem \<sigma> fields key (PStr (infer_python_type value)))
               (dict_items_of \<sigma> data) \<sigma>
      in (fields, \<sigma>))"

text \<open>
  \<^verbatim>\<open>build\<close> on a reference: the only use of \<^verbatim>\<open>fields\<close> in \<^verbatim>\<open>build\<close> and in the four
  methods it calls is \<^verbatim>\<open>fields.items()\<close> in \<^verbatim>\<open>_build_body_nodes\<close>; the nodes hold the
  key and type strings themselves. No statement stores into a dict.
\<close>

definition build_ref :: "string store \<Rightarrow> builder \<Rightarrow> string \<Rightarrow> ref \<Rightarrow> string \<times> string store" where
  "build_ref \<sigma> self class_name fields =
     (build self class_name (dict_items_of \<sigma> fields), \<sigma>)"

section \<open>Properties of the type inferrer\<close>

lemma infer_PNone: "infer_python_type PNone = ''None''"
  by (simp add: infer_python_type.simps)

lemma infer_PBool: "infer_python_type (PBool b) = ''bool''"
  by (simp add: infer_python_type.simps)

lemma infer_PInt: "infer_python_type (PInt i) = ''int''"
  by (simp add: infer_python_type.simps)

lemma infer_PFloat: "infer_python_type (PFloat x) = ''float''"
  by (simp add: infer_python_type.simps)

lemma infer_PStr: "infer_python_type (PStr s) = ''str''"
  by (simp add: infer_python_type.simps)

lemma infer_PList_Nil: "infer_python_type (PList []) = ''list[Any]''"
  by (simp add: infer_python_type.simps)

lemma infer_PList_Cons:
  "infer_python_type (PList (x # xs)) = ''list['' @ infer_python_type x @ '']''"
  by (subst infer_python_type.simps) simp

lemma infer_PDict_Nil: "infer_python_type (PDict []) = ''dict[str, Any]''"
  by (simp add: infer_python_type.simps)

lemma infer_PDict_Cons:
  "infer_python_type (PDict ((k, v) # kvs)) =
     ''dict['' @ infer_python_type k @ '', '' @ infer_python_type v @ '']''"
  by (subst infer_python_type.simps) simp

lemma infer_PObject: "infer_python_type PObject = ''Any''"
  by (simp add: infer_python_type.simps)

lemmas infer_simps = infer_PNone infer_PBool infer_PInt infer_PFloat infer_PStr
  infer_PList_Nil infer_PList_Cons infer_PDict_Nil infer_PDict_Cons infer_PObject

lemma type_name_infer: "type_name (infer_python_type v)"
proof (induction v rule: infer_python_type.induct)
  case (1 v)
  show ?case
  proof (cases v)
    case (PList xs)
    show ?thesis
    proof (cases xs)
      case Nil
      have "type_name (''list['' @ ''Any'' @ '']'')"
        by (rule tn_list [OF tn_Any])
      with PList Nil show ?thesis by (simp add: infer_PList_Nil)
    next
      case (Cons x xs')
      with PList 1(1) have "type_name (infer_python_type x)" by simp
      then have "type_name (''list['' @ infer_python_type x @ '']'')"
        by (rule tn_list)
      with PList Cons show ?thesis by (simp add: infer_PList_Cons)
    qed
  next
    case (PDict kvs)
    show ?thesis
    proof (cases kvs)
      case Nil
      have "type_name (''dict['' @ ''str'' @ '', '' @ ''Any'' @ '']'')"
        by (rule tn_dict [OF tn_str tn_Any])
      with PDict Nil show ?thesis by (simp add: infer_PDict_Nil)
    next
      case (Cons kv kvs')
      obtain k x where kv: "kv = (k, x)" by (cases kv)
      from PDict Cons kv 1(2) have k: "type_name (infer_python_type k)" by simp
      from PDict Cons kv 1(3) have x: "type_name (infer_python_type x)" by simp
      from k x
      have "type_name (''dict['' @ infer_python_type k @ '', '' @ infer_python_type x @ '']'')"
        by (rule tn_dict)
      with PDict Cons kv show ?thesis by (simp add: infer_PDict_Cons)
    qed
  qed (simp_all add: infer_simps type_name.intros)
qed

lemma infer_other_kind:
  assumes "v \<noteq> PNone" "\<not> isinstance_bool v" "\<not> isinstance_int v" "\<not> isinstance_float v"
    and "\<not> isinstance_str v" "\<not> isinstance_list v" "\<not> isinstance_dict v"
  shows "infer_python_type v = ''Any''"
  using assms by (simp add: infer_python_type.simps)

text \<open>
  C3. For a non-empty object whose first item in insertion order is \<open>(k, val)\<close>, the
  inferred type is \<^verbatim>\<open>"dict[" + infer_type(k) + ", " + infer_type(val) + "]"\<close>, whatever the
  other items are; for the empty object it is \<^verbatim>\<open>"dict[str, Any]"\<close>.
\<close>

theorem infer_object_first_pair:
  "infer_python_type (PDict ((k, val) # rest)) =
     ''dict['' @ infer_python_type k @ '', '' @ infer_python_type val @ '']''
   \<and> infer_python_type (PDict []) = ''dict[str, Any]''"
  by (simp add: infer_PDict_Cons infer_PDict_Nil)

text \<open>
  C4. For a non-empty array with first element \<open>x\<close>, the inferred type is
  \<^verbatim>\<open>"list[" + infer_type(a[0]) + "]"\<close>; the other elements are not consulted (the
  result is that of the one-element array of \<open>x\<close>); for the empty array it is
  \<^verbatim>\<open>"list[Any]"\<close>.
\<close>

theorem infer_array_first_element:
  "infer_python_type (PList (x # xs)) = ''list['' @ infer_python_type x @ '']''
   \<and> infer_python_type (PList (x # xs)) = infer_python_type (PList [x])
   \<and> infer_python_type (PList []) = ''list[Any]''"
  by (simp add: infer_PList_Cons infer_PList_Nil)

text \<open>
  C5. Every boolean is inferred as \<^verbatim>\<open>"bool"\<close> and not as \<^verbatim>\<open>"int"\<close>, although a boolean
  passes the integer test of the chain as well: the boolean test comes first.
\<close>

theorem infer_bool_before_int:
  "infer_python_type (PBool b) = ''bool''
   \<and> infer_python_type (PBool b) \<noteq> ''int''
   \<and> isinstance_int (PBool b)"
  by (simp add: infer_PBool)

lemma frames_needed_pos: "0 < frames_needed v"
  by (cases v rule: frames_needed.cases) simp_all

lemma infer_python_type_frames_eq:
  "infer_python_type_frames n v =
     (if frames_needed v \<le> n then Inr (infer_python_type v) else Inl RecursionError)"
proof (induction n arbitrary: v)
  case 0
  show ?case using frames_needed_pos [of v] by simp
next
  case (Suc n)
  show ?case
  proof (cases v)
    case (PList xs)
    show ?thesis
    proof (cases xs)
      case Nil
      with PList show ?thesis by (simp add: infer_PList_Nil)
    next
      case (Cons x xs')
      with PList Suc.IH [of x] show ?thesis by (simp add: infer_PList_Cons)
    qed
  next
    case (PDict kvs)
    show ?thesis
    proof (cases kvs)
      case Nil
      with PDict show ?thesis by (simp add: infer_PDict_Nil)
    next
      case (Cons kv kvs')
      obtain k x where kv: "kv = (k, x)" by (cases kv)
      with PDict Cons Suc.IH [of k] Suc.IH [of x] show ?thesis
        by (simp add: infer_PDict_Cons)
    qed
  qed (simp_all add: infer_simps)
qed

lemma frames_needed_nested_list: "frames_needed (nested_list n v) = n + frames_needed v"
  by (induction n) simp_all

lemma infer_nested_list_fails:
  "infer_python_type_frames n (nested_list n v) = Inl RecursionError"
  using frames_needed_pos [of v]
  by (simp add: infer_python_type_frames_eq frames_needed_nested_list)

text \<open>
  C8, as amended. The inferrer has no effect besides its result, and its recursion is
  well-founded: as a function of the value alone it has a type name for every value,
  and a value of none of the seven kinds gets \<^verbatim>\<open>"Any"\<close>. On the interpreter it returns
  that type name exactly when the frames left suffice for the nesting of the value
  along first elements, first keys and first values, one frame per level; it has no
  guard against deeper nesting, where the call fails with \<^verbatim>\<open>RecursionError\<close>. Whatever
  the number of frames, a list nested that many levels deep makes it fail.
\<close>

theorem infer_total_up_to_stack_depth:
  "type_name (infer_python_type v)
   \<and> (v \<noteq> PNone \<and> \<not> isinstance_bool v \<and> \<not> isinstance_int v \<and> \<not> isinstance_float v
        \<and> \<not> isinstance_str v \<and> \<not> isinstance_list v \<and> \<not> isinstance_dict v
      \<longrightarrow> infer_python_type v = ''Any'')
   \<and> (frames_needed v \<le> frames \<longrightarrow>
        infer_python_type_frames frames v = Inr (infer_python_type v))
   \<and> (frames < frames_needed v \<longrightarrow> infer_python_type_frames frames v = Inl RecursionError)
   \<and> infer_python_type_frames frames (nested_list frames v) = Inl RecursionError"
proof (intro conjI impI)
  show "type_name (infer_python_type v)"
    by (rule type_name_infer)
  show "infer_python_type v = ''Any''"
    if "v \<noteq> PNone \<and> \<not> isinstance_bool v \<and> \<not> isinstance_int v \<and> \<not> isinstance_float v
        \<and> \<not> isinstance_str v \<and> \<not> isinstance_list v \<and> \<not> isinstance_dict v"
    using that by (simp add: infer_other_kind)
  show "infer_python_type_frames frames v = Inr (infer_python_type v)"
    if "frames_needed v \<le> frames"
    using that by (simp add: infer_python_type_frames_eq)
  show "infer_python_type_frames frames v = Inl RecursionError"
    if "frames < frames_needed v"
    using that by (simp add: infer_python_type_frames_eq)
  show "infer_python_type_frames frames (nested_list frames v) = Inl RecursionError"
    by (rule infer_nested_list_fails)
qed

theorem infer_total_up_to_stack_depth_witness:
  "PObject \<noteq> PNone \<and> \<not> isinstance_bool PObject \<and> \<not> isinstance_int PObject
   \<and> \<not> isinstance_float PObject \<and> \<not> isinstance_str PObject \<and> \<not> isinstance_list PObject
   \<and> \<not> isinstance_dict PObject
   \<and> infer_python_type PObject = ''Any''
   \<and> frames_needed (PList [PList [PInt 1, PInt 2], PList []]) \<le> 3
   \<and> infer_python_type_frames 3 (PList [PList [PInt 1, PInt 2], PList []]) = Inr ''list[list[int]]''
   \<and> 2 < frames_needed (PList [PList [PInt 1, PInt 2], PList []])
   \<and> infer_python_type_frames 2 (PList [PList [PInt 1, PInt 2], PList []]) = Inl RecursionError"
proof -
  have t: "infer_python_type (PList [PList [PInt 1, PInt 2], PList []]) = ''list[list[int]]''"
    by (simp add: infer_simps)
  have n: "frames_needed (PList [PList [PInt 1, PInt 2], PList []]) = 3"
    by simp
  from t n
    infer_total_up_to_stack_depth [of PObject 0]
    infer_total_up_to_stack_depth [of "PList [PList [PInt 1, PInt 2], PList []]" 3]
    infer_total_up_to_stack_depth [of "PList [PList [PInt 1, PInt 2], PList []]" 2]
  show ?thesis by simp
qed

text \<open>
  C8 as stated, without failure on every value, fails on the interpreter: with all
  1000 frames of the default recursion limit left, the value \<^verbatim>\<open>None\<close> inside 1000 lists
  raises \<^verbatim>\<open>RecursionError\<close>.
\<close>

theorem infer_deep_list_recursion_error:
  "infer_python_type_frames 1000 (nested_list 1000 PNone) = Inl RecursionError"
  by (simp add: infer_python_type_frames_eq frames_needed_nested_list)

section \<open>Properties of the field schema builder\<close>

lemma dict_setitem_fresh:
  "key \<notin> set (map fst d) \<Longrightarrow> dict_setitem d key v = d @ [(key, v)]"
  by (simp add: dict_setitem_def)

lemma infer_fields_fold:
  "distinct (map fst acc @ map fst obj) \<Longrightarrow>
   fold (\<lambda>(key, value) fields. dict_setitem fields key (infer_python_type value)) obj acc
     = acc @ map (\<lambda>(k, v). (k, infer_python_type v)) obj"
proof (induction obj arbitrary: acc)
  case Nil
  show ?case by simp
next
  case (Cons kv obj)
  obtain k v where kv: "kv = (k, v)" by (cases kv)
  from Cons.prems kv have fresh: "k \<notin> set (map fst acc)" by auto
  from Cons.prems kv
  have "distinct (map fst (acc @ [(k, infer_python_type v)]) @ map fst obj)"
    by auto
  from Cons.IH [OF this] kv fresh show ?case
    by (simp add: dict_setitem_fresh)
qed

lemma infer_fields_map:
  "distinct (map fst obj) \<Longrightarrow>
   infer_fields_from_json obj = map (\<lambda>(k, v). (k, infer_python_type v)) obj"
  using infer_fields_fold [of "[]" obj] by (simp add: infer_fields_from_json_def)

text \<open>
  C6. For an object (its keys distinct, as in every dict), the inferred schema binds
  each key, in insertion order, to the inferred type of its value; the empty object
  gives the empty schema; and the object with \<^verbatim>\<open>user_id = 123\<close>,
  \<^verbatim>\<open>username = "alice"\<close>, \<^verbatim>\<open>is_active = True\<close> gives \<^verbatim>\<open>int\<close>, \<^verbatim>\<open>str\<close>, \<^verbatim>\<open>bool\<close>.
\<close>

theorem infer_fields_in_order:
  "(distinct (map fst obj) \<longrightarrow>
      infer_fields_from_json obj = map (\<lambda>(k, v). (k, infer_python_type v)) obj)
   \<and> infer_fields_from_json [] = []
   \<and> infer_fields_from_json
        [(''user_id'', PInt 123), (''username'', PStr ''alice''), (''is_active'', PBool True)]
      = [(''user_id'', ''int''), (''username'', ''str''), (''is_active'', ''bool'')]"
  by (simp add: infer_fields_map infer_simps)

theorem infer_fields_in_order_witness:
  "distinct (map fst [(''id'', PInt 1), (''tags'', PList [PStr ''a'', PStr ''b'']),
                      (''price'', PFloat 0x4058FF5C28F5C28F)])
   \<and> infer_fields_from_json [(''id'', PInt 1), (''tags'', PList [PStr ''a'', PStr ''b'']),
                             (''price'', PFloat 0x4058FF5C28F5C28F)]
      = [(''id'', ''int''), (''tags'', ''list[str]''), (''price'', ''float'')]"
  using infer_fields_in_order
    [of "[(''id'', PInt 1), (''tags'', PList [PStr ''a'', PStr ''b'']),
          (''price'', PFloat 0x4058FF5C28F5C28F)]"]
  by (simp add: infer_simps)

section \<open>The text of a build\<close>

lemma source_write_src [simp]: "source (write_src t u) = source u @ [t]"
  by (simp add: write_src_def)

lemma indent_write_src [simp]: "indent (write_src t u) = indent u"
  by (simp add: write_src_def)

lemma body_nodes_fold:
  "fold (\<lambda>(name, typ) nodes. nodes @ [AnnAssign (Name name Store) (Name typ Load) None 1])
     fields acc
   = acc @ map (\<lambda>(name, typ). AnnAssign (Name name Store) (Name typ Load) None 1) fields"
  by (induction fields arbitrary: acc) auto

lemma build_body_nodes_eq:
  "build_body_nodes b class_name fields =
     (if fields = [] then [Pass]
      else map (\<lambda>(name, typ). AnnAssign (Name name Store) (Name typ Load) None 1) fields)"
  by (simp add: build_body_nodes_def body_nodes_fold)

lemma visit_AnnAssign:
  "source u \<noteq> [] \<Longrightarrow> indent u = 1 \<Longrightarrow>
   visit_stmt (AnnAssign (Name name Store) (Name typ Load) None 1) u
     = Unparser (source u @ [''\<newline>'', ''    '', name, '': '', typ]) 1"
  by (simp add: fill_def maybe_newline_def write_src_def)

lemma fold_visit_fields:
  "source u \<noteq> [] \<Longrightarrow> indent u = 1 \<Longrightarrow>
   fold visit_stmt
     (map (\<lambda>(name, typ). AnnAssign (Name name Store) (Name typ Load) None 1) fields) u
   = Unparser (source u @
       concat (map (\<lambda>(name, typ). [''\<newline>'', ''    '', name, '': '', typ]) fields)) 1"
proof (induction fields arbitrary: u)
  case Nil
  then show ?case by (cases u) simp
next
  case (Cons f fields)
  obtain n t where f: "f = (n, t)" by (cases f)
  let ?mk = "\<lambda>(name, typ). AnnAssign (Name name Store) (Name typ Load) None 1"
  let ?u = "Unparser (source u @ [''\<newline>'', ''    '', n, '': '', t]) 1"
  have "fold visit_stmt (map ?mk (f # fields)) u = fold visit_stmt (map ?mk fields) ?u"
    using Cons.prems f by (simp add: visit_AnnAssign del: visit_stmt.simps)
  also have "\<dots> = Unparser (source ?u @
      concat (map (\<lambda>(name, typ). [''\<newline>'', ''    '', name, '': '', typ]) fields)) 1"
    by (rule Cons.IH) simp_all
  finally show ?case using f by simp
qed

lemma concat_field_parts:
  "concat (concat (map (\<lambda>(name, typ). [''\<newline>'', ''    '', name, '': '', typ]) fields))
     = concat (map (\<lambda>l. CHR 0x0A # l) (map field_text fields))"
  by (induction fields) (auto simp: field_text_def)

lemma fold_visit_body:
  assumes "source u \<noteq> []" "indent u = 1"
  shows "concat (source (fold visit_stmt (build_body_nodes b class_name fields) u))
           = concat (source u) @ concat (map (\<lambda>l. CHR 0x0A # l) (body_lines fields))"
proof (cases "fields = []")
  case True
  with assms show ?thesis
    by (simp add: build_body_nodes_eq body_lines_def fill_def maybe_newline_def)
next
  case False
  with assms show ?thesis
    by (simp add: build_body_nodes_eq body_lines_def fold_visit_fields concat_field_parts
             del: visit_stmt.simps)
qed

lemma join_lines_append:
  "xs \<noteq> [] \<Longrightarrow> join_lines (xs @ ys) = join_lines xs @ concat (map (\<lambda>l. CHR 0x0A # l) ys)"
  by (cases xs) (simp_all add: join_lines_def)

lemma header_lines_not_Nil: "header_lines b class_name \<noteq> []"
  by (cases b) (simp_all add: header_lines_def)

lemma build_lines:
  "build b class_name fields = join_lines (header_lines b class_name @ body_lines fields)"
proof -
  let ?hd = "fold visit_stmt (build_imports b class_name fields @
     [ClassDef class_name (build_bases b class_name fields) [] []
        (build_decorators b class_name fields)]) (Unparser [] 0)"
  have hd: "concat (source ?hd) = join_lines (header_lines b class_name)
      \<and> source ?hd \<noteq> [] \<and> indent ?hd = 0"
    by (cases b)
       (simp_all add: header_lines_def join_lines_def fill_def maybe_newline_def
          comma_then_def write_src_def)
  have "build b class_name fields =
      concat (source (fold visit_stmt (build_body_nodes b class_name fields)
         (Unparser (source ?hd) (indent ?hd + 1))))"
    by (simp add: build_def Let_def del: visit_stmt.simps) (simp add: Let_def)
  also have "\<dots> = concat (source (Unparser (source ?hd) (indent ?hd + 1)))
      @ concat (map (\<lambda>l. CHR 0x0A # l) (body_lines fields))"
    by (rule fold_visit_body) (use hd in simp_all)
  finally show ?thesis
    using hd by (simp add: join_lines_append header_lines_not_Nil)
qed

text \<open>
  C7. Each builder emits its kind's fixed metadata: \<^verbatim>\<open>TypedDictBuilder\<close> imports
  \<^verbatim>\<open>TypedDict\<close> from \<^verbatim>\<open>typing\<close> and has it as base, with no decorator;
  \<^verbatim>\<open>DataclassBuilder\<close> imports \<^verbatim>\<open>dataclass\<close> and has it as decorator, with no base;
  \<^verbatim>\<open>PydanticBuilder\<close> imports \<^verbatim>\<open>BaseModel\<close> and has it as base; \<^verbatim>\<open>NamedTupleBuilder\<close>
  imports \<^verbatim>\<open>NamedTuple\<close> and has it as base; \<^verbatim>\<open>AttrsBuilder\<close> imports \<^verbatim>\<open>define\<close> and
  has it as decorator. All five make one annotated assignment \<^verbatim>\<open>name: type\<close> per
  field, and the text of a build is these header lines followed by the body lines.
\<close>

theorem builder_metadata:
  "build_imports TypedDictBuilder cn fs = [ImportFrom ''typing'' [Alias ''TypedDict'' None] 0]
   \<and> build_bases TypedDictBuilder cn fs = [Name ''TypedDict'' Load]
   \<and> build_decorators TypedDictBuilder cn fs = []
   \<and> build TypedDictBuilder cn fs =
       join_lines ([''from typing import TypedDict'', [], ''class '' @ cn @ ''(TypedDict):'']
                   @ body_lines fs)
   \<and> build_imports DataclassBuilder cn fs = [ImportFrom ''dataclasses'' [Alias ''dataclass'' None] 0]
   \<and> build_bases DataclassBuilder cn fs = []
   \<and> build_decorators DataclassBuilder cn fs = [Name ''dataclass'' Load]
   \<and> build DataclassBuilder cn fs =
       join_lines ([''from dataclasses import dataclass'', [], ''@dataclass'', ''class '' @ cn @ '':'']
                   @ body_lines fs)
   \<and> build_imports PydanticBuilder cn fs = [ImportFrom ''pydantic'' [Alias ''BaseModel'' None] 0]
   \<and> build_bases PydanticBuilder cn fs = [Name ''BaseModel'' Load]
   \<and> build_decorators PydanticBuilder cn fs = []
   \<and> build PydanticBuilder cn fs =
       join_lines ([''from pydantic import BaseModel'', [], ''class '' @ cn @ ''(BaseModel):'']
                   @ body_lines fs)
   \<and> build_imports NamedTupleBuilder cn fs = [ImportFrom ''typing'' [Alias ''NamedTuple'' None] 0]
   \<and> build_bases NamedTupleBuilder cn fs = [Name ''NamedTuple'' Load]
   \<and> build_decorators NamedTupleBuilder cn fs = []
   \<and> build NamedTupleBuilder cn fs =
       join_lines ([''from typing import NamedTuple'', [], ''class '' @ cn @ ''(NamedTuple):'']
                   @ body_lines fs)
   \<and> build_imports AttrsBuilder cn fs = [ImportFrom ''attr'' [Alias ''define'' None] 0]
   \<and> build_bases AttrsBuilder cn fs = []
   \<and> build_decorators AttrsBuilder cn fs = [Name ''define'' Load]
   \<and> build AttrsBuilder cn fs =
       join_lines ([''from attr import define'', [], ''@define'', ''class '' @ cn @ '':'']
                   @ body_lines fs)
   \<and> build_body_nodes b cn ((name, typ) # fs) =
       map (\<lambda>(name, typ). AnnAssign (Name name Store) (Name typ Load) None 1) ((name, typ) # fs)
   \<and> body_lines ((name, typ) # fs) =
       map (\<lambda>(name, typ). ''    '' @ name @ '': '' @ typ) ((name, typ) # fs)"
proof -
  have "build b' cn fs = join_lines (header_lines b' cn @ body_lines fs)" for b'
    by (rule build_lines)
  then have
    "build TypedDictBuilder cn fs =
       join_lines ([''from typing import TypedDict'', [], ''class '' @ cn @ ''(TypedDict):'']
                   @ body_lines fs)"
    "build DataclassBuilder cn fs =
       join_lines ([''from dataclasses import dataclass'', [], ''@dataclass'', ''class '' @ cn @ '':'']
                   @ body_lines fs)"
    "build PydanticBuilder cn fs =
       join_lines ([''from pydantic import BaseModel'', [], ''class '' @ cn @ ''(BaseModel):'']
                   @ body_lines fs)"
    "build NamedTupleBuilder cn fs =
       join_lines ([''from typing import NamedTuple'', [], ''class '' @ cn @ ''(NamedTuple):'']
                   @ body_lines fs)"
    "build AttrsBuilder cn fs =
       join_lines ([''from attr import define'', [], ''@define'', ''class '' @ cn @ '':'']
                   @ body_lines fs)"
    by (simp_all add: header_lines_def)
  moreover have "build_body_nodes b cn ((name, typ) # fs) =
       map (\<lambda>(name, typ). AnnAssign (Name name Store) (Name typ Load) None 1) ((name, typ) # fs)"
    by (simp add: build_body_nodes_eq)
  moreover have "body_lines ((name, typ) # fs) =
       map (\<lambda>(name, typ). ''    '' @ name @ '': '' @ typ) ((name, typ) # fs)"
    by (simp add: body_lines_def field_text_def)
  ultimately show ?thesis by simp
qed

text \<open>
  C9. For every builder and class name, a build from the empty schema has a class body
  of exactly one statement, \<^verbatim>\<open>pass\<close>: the body nodes are the single node \<^verbatim>\<open>Pass\<close>, and
  the text is the header lines followed by the one line \<^verbatim>\<open>pass\<close>.
\<close>

theorem build_empty_schema:
  "build_body_nodes b cn [] = [Pass]
   \<and> build b cn [] = join_lines (header_lines b cn @ [''    pass''])
   \<and> build TypedDictBuilder cn [] =
       ''from typing import TypedDict'' @ [CHR 0x0A, CHR 0x0A] @ ''class '' @ cn @ ''(TypedDict):''
       @ [CHR 0x0A] @ ''    pass''
   \<and> build DataclassBuilder cn [] =
       ''from dataclasses import dataclass'' @ [CHR 0x0A, CHR 0x0A] @ ''@dataclass'' @ [CHR 0x0A]
       @ ''class '' @ cn @ '':'' @ [CHR 0x0A] @ ''    pass''
   \<and> build PydanticBuilder cn [] =
       ''from pydantic import BaseModel'' @ [CHR 0x0A, CHR 0x0A] @ ''class '' @ cn @ ''(BaseModel):''
       @ [CHR 0x0A] @ ''    pass''
   \<and> build NamedTupleBuilder cn [] =
       ''from typing import NamedTuple'' @ [CHR 0x0A, CHR 0x0A] @ ''class '' @ cn @ ''(NamedTuple):''
       @ [CHR 0x0A] @ ''    pass''
   \<and> build AttrsBuilder cn [] =
       ''from attr import define'' @ [CHR 0x0A, CHR 0x0A] @ ''@define'' @ [CHR 0x0A]
       @ ''class '' @ cn @ '':'' @ [CHR 0x0A] @ ''    pass''"
  by (simp add: build_body_nodes_eq build_lines body_lines_def header_lines_def join_lines_def)

section \<open>Properties of the registry\<close>

lemma get_builder_known:
  "get_builder ''typed_dict'' = Inr TypedDictBuilder"
  "get_builder ''dataclass'' = Inr DataclassBuilder"
  "get_builder ''pydantic'' = Inr PydanticBuilder"
  "get_builder ''namedtuple'' = Inr NamedTupleBuilder"
  "get_builder ''attrs'' = Inr AttrsBuilder"
  by (simp_all add: get_builder_def)

lemma get_builder_unknown:
  "k \<notin> set [''typed_dict'', ''dataclass'', ''pydantic'', ''namedtuple'', ''attrs'']
   \<Longrightarrow> get_builder k = Inl (ValueError (''Unknown builder type: '' @ k))"
  by (simp add: get_builder_def)

text \<open>
  C2. \<^verbatim>\<open>get_builder\<close> raises exactly when the identifier is none of \<^verbatim>\<open>typed_dict\<close>,
  \<^verbatim>\<open>dataclass\<close>, \<^verbatim>\<open>pydantic\<close>, \<^verbatim>\<open>namedtuple\<close>, \<^verbatim>\<open>attrs\<close>; the message of the error
  is \<^verbatim>\<open>Unknown builder type: \<close> followed by the identifier as supplied, so it contains
  it; and each of the five identifiers gets the builder of its kind.
\<close>

theorem get_builder_raises_iff_unknown:
  "(isl (get_builder k) \<longleftrightarrow>
      k \<notin> set [''typed_dict'', ''dataclass'', ''pydantic'', ''namedtuple'', ''attrs''])
   \<and> (\<forall>msg. get_builder k = Inl (ValueError msg) \<longrightarrow>
         msg = ''Unknown builder type: '' @ k \<and> sublist k msg)
   \<and> get_builder ''typed_dict'' = Inr TypedDictBuilder
   \<and> get_builder ''dataclass'' = Inr DataclassBuilder
   \<and> get_builder ''pydantic'' = Inr PydanticBuilder
   \<and> get_builder ''namedtuple'' = Inr NamedTupleBuilder
   \<and> get_builder ''attrs'' = Inr AttrsBuilder"
proof -
  have iff: "isl (get_builder k) \<longleftrightarrow>
      k \<notin> set [''typed_dict'', ''dataclass'', ''pydantic'', ''namedtuple'', ''attrs'']"
  proof (cases "k \<in> set [''typed_dict'', ''dataclass'', ''pydantic'', ''namedtuple'', ''attrs'']")
    case True
    then show ?thesis using get_builder_known by auto
  next
    case False
    then show ?thesis using get_builder_unknown [of k] by simp
  qed
  have msg: "msg = ''Unknown builder type: '' @ k \<and> sublist k msg"
    if "get_builder k = Inl (ValueError msg)" for msg
  proof -
    from that have "isl (get_builder k)" by simp
    with iff have "get_builder k = Inl (ValueError (''Unknown builder type: '' @ k))"
      using get_builder_unknown [of k] by blast
    with that have "msg = ''Unknown builder type: '' @ k" by simp
    moreover have "sublist k (''Unknown builder type: '' @ k @ [])"
      by (rule sublist_appendI)
    ultimately show ?thesis by simp
  qed
  from iff msg get_builder_known show ?thesis by blast
qed

theorem get_builder_raises_iff_unknown_witness:
  "get_builder ''invalid'' = Inl (ValueError ''Unknown builder type: invalid'')
   \<and> sublist ''invalid'' ''Unknown builder type: invalid''"
proof -
  have "get_builder ''invalid'' = Inl (ValueError ''Unknown builder type: invalid'')"
    by (simp add: get_builder_def)
  with get_builder_raises_iff_unknown [of "''invalid''"] show ?thesis by simp
qed

section \<open>Generated text and the parser\<close>




























































section \<open>What a call leaves in the store\<close>

lemma fold_setitem_new:
  "fold (\<lambda>(key, value) \<sigma>. store_setitem \<sigma> (length \<sigma>0) key (g value)) items (\<sigma>0 @ [d])
     = \<sigma>0 @ [fold (\<lambda>(key, value) d. dict_setitem d key (g value)) items d]"
proof (induction items arbitrary: d)
  case Nil
  show ?case by simp
next
  case (Cons kv items)
  obtain k v where kv: "kv = (k, v)" by (cases kv)
  have "store_setitem (\<sigma>0 @ [d]) (length \<sigma>0) k (g v) = \<sigma>0 @ [dict_setitem d k (g v)]"
    by (simp add: store_setitem_def)
  with Cons.IH [of "dict_setitem d k (g v)"] kv show ?case by simp
qed

lemma infer_fields_from_json_ref_eq:
  "infer_fields_from_json_ref \<sigma> data =
     (length \<sigma>,
      \<sigma> @ [fold (\<lambda>(key, value) d. dict_setitem d key (PStr (infer_python_type value)))
               (dict_items_of (\<sigma> @ [[]]) data) []])"
  by (simp add: infer_fields_from_json_ref_def dict_new_def fold_setitem_new)

lemma dict_setitem_map:
  "dict_setitem (map (\<lambda>(k, t). (k, h t)) d) key (h v) = map (\<lambda>(k, t). (k, h t)) (dict_setitem d key v)"
  by (auto simp: dict_setitem_def image_iff split_beta)

lemma fold_setitem_map:
  "fold (\<lambda>(key, value) d. dict_setitem d key (h (g value))) items (map (\<lambda>(k, t). (k, h t)) d)
     = map (\<lambda>(k, t). (k, h t)) (fold (\<lambda>(key, value) d. dict_setitem d key (g value)) items d)"
proof (induction items arbitrary: d)
  case Nil
  show ?case by simp
next
  case (Cons kv items)
  obtain k v where kv: "kv = (k, v)" by (cases kv)
  from Cons.IH [of "dict_setitem d k (g v)"] kv show ?case
    by (simp add: dict_setitem_map)
qed

lemma infer_fields_from_json_ref_result:
  assumes "data < length \<sigma>"
  shows "infer_fields_from_json_ref \<sigma> data =
     (length \<sigma>, \<sigma> @ [map (\<lambda>(k, t). (k, PStr t)) (infer_fields_from_json (\<sigma> ! data))])"
proof -
  from assms have "dict_items_of (\<sigma> @ [[]]) data = \<sigma> ! data"
    by (simp add: dict_items_of_def nth_append)
  then show ?thesis
    using fold_setitem_map [of PStr infer_python_type "\<sigma> ! data" "[]"]
    by (simp add: infer_fields_from_json_ref_eq infer_fields_from_json_def)
qed

text \<open>
  C10. Neither call changes its argument. \<^verbatim>\<open>build\<close> returns the store as it found
  it, so the schema at \<^verbatim>\<open>fields\<close> holds the same items in the same order afterwards.
  \<^verbatim>\<open>infer_fields_from_json\<close> returns a reference that was not in use before, and every
  object that was in the store, the argument among them, is as it was; the new object
  holds the inferred schema.
\<close>

theorem calls_leave_arguments_unchanged:
  "snd (build_ref \<sigma>s b class_name fields) = \<sigma>s
   \<and> fst (build_ref \<sigma>s b class_name fields) = build b class_name (\<sigma>s ! fields)
   \<and> (\<forall>r < length \<sigma>. snd (infer_fields_from_json_ref \<sigma> data) ! r = \<sigma> ! r)
   \<and> fst (infer_fields_from_json_ref \<sigma> data) = length \<sigma>
   \<and> (data < length \<sigma> \<longrightarrow>
        snd (infer_fields_from_json_ref \<sigma> data) ! data = \<sigma> ! data
        \<and> snd (infer_fields_from_json_ref \<sigma> data) ! fst (infer_fields_from_json_ref \<sigma> data)
            = map (\<lambda>(k, t). (k, PStr t)) (infer_fields_from_json (\<sigma> ! data)))"
proof (intro conjI impI allI)
  show "snd (build_ref \<sigma>s b class_name fields) = \<sigma>s"
    by (simp add: build_ref_def)
  show "fst (build_ref \<sigma>s b class_name fields) = build b class_name (\<sigma>s ! fields)"
    by (simp add: build_ref_def dict_items_of_def)
  show "snd (infer_fields_from_json_ref \<sigma> data) ! r = \<sigma> ! r" if "r < length \<sigma>" for r
    using that by (simp add: infer_fields_from_json_ref_eq nth_append)
  show "fst (infer_fields_from_json_ref \<sigma> data) = length \<sigma>"
    by (simp add: infer_fields_from_json_ref_eq)
  show "snd (infer_fields_from_json_ref \<sigma> data) ! data = \<sigma> ! data" if "data < length \<sigma>"
    using that by (simp add: infer_fields_from_json_ref_eq nth_append)
  show "snd (infer_fields_from_json_ref \<sigma> data) ! fst (infer_fields_from_json_ref \<sigma> data)
       = map (\<lambda>(k, t). (k, PStr t)) (infer_fields_from_json (\<sigma> ! data))"
    if "data < length \<sigma>"
    using that by (simp add: infer_fields_from_json_ref_result)
qed

theorem calls_leave_arguments_unchanged_witness:
  "(0::nat) < length [[(''user_id'', PInt 123), (''is_active'', PBool True)]]
   \<and> snd (infer_fields_from_json_ref [[(''user_id'', PInt 123), (''is_active'', PBool True)]] 0) ! 0
       = [(''user_id'', PInt 123), (''is_active'', PBool True)]
   \<and> fst (infer_fields_from_json_ref [[(''user_id'', PInt 123), (''is_active'', PBool True)]] 0) = 1
   \<and> snd (infer_fields_from_json_ref [[(''user_id'', PInt 123), (''is_active'', PBool True)]] 0) ! 1
       = [(''user_id'', PStr ''int''), (''is_active'', PStr ''bool'')]
   \<and> snd (build_ref [[(''id'', ''int'')]] AttrsBuilder ''User'' 0) = [[(''id'', ''int'')]]"
proof -
  have d: "distinct (map fst [(''user_id'', PInt 123), (''is_active'', PBool True)])"
    by simp
  have "infer_fields_from_json [(''user_id'', PInt 123), (''is_active'', PBool True)]
      = [(''user_id'', ''int''), (''is_active'', ''bool'')]"
    by (simp add: infer_fields_map [OF d] infer_simps)
  with calls_leave_arguments_unchanged
    [of "[[(''id'', ''int'')]]" AttrsBuilder "''User''" 0
        "[[(''user_id'', PInt 123), (''is_active'', PBool True)]]" 0]
  show ?thesis by auto
qed

end
